theory Spec2Isabelle
  imports Main "HOL-Library.Multiset"
begin

section \<open>Platform label lookup (platformUtils.ts)\<close>

text \<open>
  \<^verbatim>\<open>getRevealLabel(platform: string): string\<close> compares the platform string with
  two literals, in this order, and falls through to the macOS label.
\<close>

definition getRevealLabel :: "string \<Rightarrow> string" where
  "getRevealLabel platform =
     (if platform = ''win32'' then ''Reveal in Explorer''
      else if platform = ''linux'' then ''Reveal in File Manager''
      else ''Reveal in Finder'')"

section \<open>Data model of the agent store (agentStore.ts)\<close>

text \<open>
  The store owns two fields (\<open>availableAgents\<close>, \<open>agentsDetected\<close>) and works on the
  session collection of the session store. A TypeScript optional field or parameter is
  an \<open>option\<close>, \<open>undefined\<close> being \<open>None\<close>. String-literal union types
  (\<open>SessionState\<close>, the input mode) are strings at run time and are modelled as strings.
  Fields of a session or of a tab that the store never names are carried by the
  extension slot of the record, so the object spread \<^verbatim>\<open>{ ...s, f: v }\<close> is a record
  update.
\<close>

type_synonym SessionState = string

record AgentError =
  error_type :: string
  message :: string

record AITab =
  tab_id :: string
  tab_agentError :: "AgentError option"

record 't Session =
  session_id :: string
  state :: SessionState
  agentError :: "AgentError option"
  agentErrorTabId :: "string option"
  agentErrorPaused :: "bool option"
  inputMode :: string
  aiTabs :: "'t AITab_scheme list"

record AgentConfig =
  agent_id :: string
  agent_name :: string
  available :: bool
  command :: string

text \<open>The options object of \<open>startNewSessionAfterError\<close>, as it is handed to \<open>createTab\<close>.\<close>

record TabOptions =
  saveToHistory :: "bool option"
  showThinking :: "string option"

subsection \<open>The process-control bridge\<close>

text \<open>
  Every function of \<^verbatim>\<open>window.maestro\<close> that the store calls returns a promise. A
  promise settles in one of two ways; a rejection carries the value thrown.
\<close>

datatype failure = Failure string

datatype 'v outcome = Resolved 'v | Rejected failure

record bridge =
  detect :: "string option \<Rightarrow> AgentConfig list outcome"
  kill :: "string \<Rightarrow> bool outcome"
  interrupt :: "string \<Rightarrow> bool outcome"
  clearError :: "string \<Rightarrow> unit outcome"

text \<open>
  What an action does at the bridge is recorded in order: \<open>Call c\<close> when the call
  expression is evaluated, \<open>Await c\<close> when the action suspends on the promise of that call
  (the \<^verbatim>\<open>await\<close> keyword of the source) and resumes only after it has settled.
\<close>

datatype ipc = Detect "string option" | Kill string | Interrupt string | ClearError string

datatype ipc_event = Call ipc | Await ipc

subsection \<open>The state the actions read and write\<close>

record ('t, 'a) world =
  sessions :: "('t, 'a) Session_scheme list"
  activeSessionId :: string
  availableAgents :: "AgentConfig list"
  agentsDetected :: bool
  calls :: "ipc_event list"
  console :: "(string \<times> failure) list"

text \<open>What an action hands back to its caller: nothing, or the looked-up configuration.\<close>

datatype retval = Void | Config "AgentConfig option"

section \<open>Collaborators that are not part of the module\<close>

text \<open>
  Modelled from the spec: the session store (\<^verbatim>\<open>sessionStore.ts\<close>) is missing. Its
  \<open>setSessions\<close> is the update-all function taking a transform over the full collection.
\<close>

definition setSessions ::
  "(('t, 'a) Session_scheme list \<Rightarrow> ('t, 'a) Session_scheme list) \<Rightarrow>
   ('t, 'a, 'w) world_scheme \<Rightarrow> ('t, 'a, 'w) world_scheme" where
  "setSessions f w = w\<lparr>sessions := f (sessions w)\<rparr>"

text \<open>
  Modelled from the spec: \<open>setActiveSessionId\<close> of the missing session store. The test
  suite observes that the store's \<open>activeSessionId\<close> is the given id afterwards.
\<close>

definition setActiveSessionId ::
  "string \<Rightarrow> ('t, 'a, 'w) world_scheme \<Rightarrow> ('t, 'a, 'w) world_scheme" where
  "setActiveSessionId sessionId w = w\<lparr>activeSessionId := sessionId\<rparr>"

section \<open>Helpers\<close>

definition getSession ::
  "string \<Rightarrow> ('t, 'a, 'w) world_scheme \<Rightarrow> ('t, 'a) Session_scheme option" where
  "getSession sessionId w = find (\<lambda>s. session_id s = sessionId) (sessions w)"

definition updateSession ::
  "string \<Rightarrow> (('t, 'a) Session_scheme \<Rightarrow> ('t, 'a) Session_scheme) \<Rightarrow>
   ('t, 'a, 'w) world_scheme \<Rightarrow> ('t, 'a, 'w) world_scheme" where
  "updateSession sessionId updater =
     setSessions (\<lambda>prev. map (\<lambda>s. if session_id s = sessionId then updater s else s) prev)"

text \<open>JavaScript truthiness of an optional string: \<open>undefined\<close> and \<open>''\<close> are falsy.\<close>

definition truthy :: "string option \<Rightarrow> bool" where
  "truthy v = (case v of None \<Rightarrow> False | Some t \<Rightarrow> t \<noteq> [])"

text \<open>
  \<^verbatim>\<open>await p\<close> inside an \<^verbatim>\<open>async\<close> function: the call is issued, the function suspends
  until the promise settles, and a rejection is raised at the \<^verbatim>\<open>await\<close>.
\<close>

definition await ::
  "ipc \<Rightarrow> 'v outcome \<Rightarrow> ('t, 'a, 'w) world_scheme \<Rightarrow>
   (failure + 'v) \<times> ('t, 'a, 'w) world_scheme" where
  "await c out w =
     ((case out of Resolved v \<Rightarrow> Inr v | Rejected e \<Rightarrow> Inl e),
      w\<lparr>calls := calls w @ [Call c, Await c]\<rparr>)"

section \<open>Actions\<close>

definition refreshAgents ::
  "bridge \<Rightarrow> string option \<Rightarrow> ('t, 'a, 'w) world_scheme \<Rightarrow>
   (failure + retval) \<times> ('t, 'a, 'w) world_scheme" where
  "refreshAgents br sshRemoteId w =
     (case await (Detect sshRemoteId) (detect br sshRemoteId) w of
        (Inl e, w') \<Rightarrow> (Inl e, w')
      | (Inr agents, w') \<Rightarrow>
          (Inr Void, w'\<lparr>availableAgents := agents, agentsDetected := True\<rparr>))"

definition getAgentConfig ::
  "string \<Rightarrow> ('t, 'a, 'w) world_scheme \<Rightarrow> AgentConfig option" where
  "getAgentConfig agentId w = find (\<lambda>a. agent_id a = agentId) (availableAgents w)"

text \<open>
  The updater of \<open>clearAgentError\<close>. \<^verbatim>\<open>tabId ?? s.agentErrorTabId\<close> takes the session's
  field only when the argument is \<open>undefined\<close>; the tabs are rewritten only when the
  resulting id is truthy.
\<close>

definition clearAgentError_updater ::
  "string option \<Rightarrow> ('t, 'a) Session_scheme \<Rightarrow> ('t, 'a) Session_scheme" where
  "clearAgentError_updater tabId s =
     (let targetTabId = (case tabId of Some t \<Rightarrow> Some t | None \<Rightarrow> agentErrorTabId s);
          updatedAiTabs =
            (if truthy targetTabId
             then map (\<lambda>tab. if Some (tab_id tab) = targetTabId
                              then tab\<lparr>tab_agentError := None\<rparr> else tab) (aiTabs s)
             else aiTabs s)
      in s\<lparr>agentError := None,
            agentErrorTabId := None,
            agentErrorPaused := Some False,
            state := ''idle'',
            aiTabs := updatedAiTabs\<rparr>)"

text \<open>
  \<open>clearAgentError\<close> is synchronous: it issues the error-acknowledgment call, attaches a
  rejection handler to its promise and returns without awaiting it. The handler writes
  to the console; its write is recorded in \<open>console\<close>.
\<close>

definition clearAgentError ::
  "bridge \<Rightarrow> string \<Rightarrow> string option \<Rightarrow> ('t, 'a, 'w) world_scheme \<Rightarrow>
   ('t, 'a, 'w) world_scheme" where
  "clearAgentError br sessionId tabId w =
     (let w1 = updateSession sessionId (clearAgentError_updater tabId) w;
          w2 = w1\<lparr>calls := calls w1 @ [Call (ClearError sessionId)]\<rparr>
      in case clearError br sessionId of
           Resolved u \<Rightarrow> w2
         | Rejected err \<Rightarrow>
             w2\<lparr>console := console w2 @ [(''Failed to clear agent error:'', err)]\<rparr>)"

text \<open>
  \<open>createTab\<close> (\<^verbatim>\<open>utils/tabHelpers\<close>) is not part of the module and is a parameter: it
  returns the session with the new tab, or nothing (\<open>null\<close>).
\<close>

definition startNewSessionAfterError ::
  "bridge \<Rightarrow> (('t, 'a) Session_scheme \<Rightarrow> TabOptions \<Rightarrow> ('t, 'a) Session_scheme option) \<Rightarrow>
   string \<Rightarrow> TabOptions option \<Rightarrow> ('t, 'a, 'w) world_scheme \<Rightarrow> ('t, 'a, 'w) world_scheme" where
  "startNewSessionAfterError br createTab sessionId options w =
     (case getSession sessionId w of
        None \<Rightarrow> w
      | Some session \<Rightarrow>
          (let w1 = clearAgentError br sessionId None w
           in updateSession sessionId
                (\<lambda>s. case createTab s
                         \<lparr>saveToHistory = (case options of None \<Rightarrow> None | Some opts \<Rightarrow> saveToHistory opts),
                          showThinking = (case options of None \<Rightarrow> None | Some opts \<Rightarrow> showThinking opts)\<rparr> of
                        None \<Rightarrow> s
                      | Some result_session \<Rightarrow> result_session) w1))"

definition retryAfterError ::
  "bridge \<Rightarrow> string \<Rightarrow> ('t, 'a, 'w) world_scheme \<Rightarrow> ('t, 'a, 'w) world_scheme" where
  "retryAfterError br sessionId w = clearAgentError br sessionId None w"

definition restartAgentAfterError ::
  "bridge \<Rightarrow> string \<Rightarrow> ('t, 'a, 'w) world_scheme \<Rightarrow>
   (failure + retval) \<times> ('t, 'a, 'w) world_scheme" where
  "restartAgentAfterError br sessionId w =
     (case getSession sessionId w of
        None \<Rightarrow> (Inr Void, w)
      | Some session \<Rightarrow>
          (let w1 = clearAgentError br sessionId None w
           in case await (Kill (sessionId @ ''-ai'')) (kill br (sessionId @ ''-ai'')) w1 of
                (Inl e, w2) \<Rightarrow> (Inr Void, w2)
              | (Inr v, w2) \<Rightarrow> (Inr Void, w2)))"

definition authenticateAfterError ::
  "bridge \<Rightarrow> string \<Rightarrow> ('t, 'a, 'w) world_scheme \<Rightarrow> ('t, 'a, 'w) world_scheme" where
  "authenticateAfterError br sessionId w =
     (case getSession sessionId w of
        None \<Rightarrow> w
      | Some session \<Rightarrow>
          (let w1 = clearAgentError br sessionId None w;
               w2 = setActiveSessionId sessionId w1
           in updateSession sessionId (\<lambda>s. s\<lparr>inputMode := ''terminal''\<rparr>) w2))"

text \<open>The name of the process \<open>killAgent\<close> targets: the suffix is used only when truthy.\<close>

definition kill_target :: "string \<Rightarrow> string option \<Rightarrow> string" where
  "kill_target sessionId suffix =
     (case suffix of
        None \<Rightarrow> sessionId @ ''-ai''
      | Some sfx \<Rightarrow> if truthy (Some sfx) then sessionId @ ''-'' @ sfx else sessionId @ ''-ai'')"

definition killAgent ::
  "bridge \<Rightarrow> string \<Rightarrow> string option \<Rightarrow> ('t, 'a, 'w) world_scheme \<Rightarrow>
   (failure + retval) \<times> ('t, 'a, 'w) world_scheme" where
  "killAgent br sessionId suffix w =
     (let target = kill_target sessionId suffix
      in case await (Kill target) (kill br target) w of
           (Inl e, w') \<Rightarrow> (Inr Void, w')
         | (Inr v, w') \<Rightarrow> (Inr Void, w'))"

definition interruptAgent ::
  "bridge \<Rightarrow> string \<Rightarrow> ('t, 'a, 'w) world_scheme \<Rightarrow>
   (failure + retval) \<times> ('t, 'a, 'w) world_scheme" where
  "interruptAgent br sessionId w =
     (case await (Interrupt sessionId) (interrupt br sessionId) w of
        (Inl e, w') \<Rightarrow> (Inr Void, w')
      | (Inr v, w') \<Rightarrow> (Inr Void, w'))"

subsection \<open>The action interface of the store\<close>

datatype action =
    RefreshAgents "string option"
  | GetAgentConfig string
  | ClearAgentError string "string option"
  | StartNewSessionAfterError string "TabOptions option"
  | RetryAfterError string
  | RestartAgentAfterError string
  | AuthenticateAfterError string
  | KillAgent string "string option"
  | InterruptAgent string

text \<open>
  Running one action: the value or failure its caller gets, and the state afterwards.
  The synchronous actions return \<open>undefined\<close>.
\<close>

fun run ::
  "bridge \<Rightarrow> (('t, 'a) Session_scheme \<Rightarrow> TabOptions \<Rightarrow> ('t, 'a) Session_scheme option) \<Rightarrow>
   action \<Rightarrow> ('t, 'a, 'w) world_scheme \<Rightarrow> (failure + retval) \<times> ('t, 'a, 'w) world_scheme" where
  "run br ct (RefreshAgents sshRemoteId) w = refreshAgents br sshRemoteId w"
| "run br ct (GetAgentConfig agentId) w = (Inr (Config (getAgentConfig agentId w)), w)"
| "run br ct (ClearAgentError sessionId tabId) w = (Inr Void, clearAgentError br sessionId tabId w)"
| "run br ct (StartNewSessionAfterError sessionId options) w =
     (Inr Void, startNewSessionAfterError br ct sessionId options w)"
| "run br ct (RetryAfterError sessionId) w = (Inr Void, retryAfterError br sessionId w)"
| "run br ct (RestartAgentAfterError sessionId) w = restartAgentAfterError br sessionId w"
| "run br ct (AuthenticateAfterError sessionId) w = (Inr Void, authenticateAfterError br sessionId w)"
| "run br ct (KillAgent sessionId suffix) w = killAgent br sessionId suffix w"
| "run br ct (InterruptAgent sessionId) w = interruptAgent br sessionId w"

section \<open>Measuring the calls of an action\<close>

text \<open>
  The events an action adds to the record of the bridge, given the state before and
  after it.
\<close>

definition emitted ::
  "('t, 'a, 'w) world_scheme \<Rightarrow> ('t, 'a, 'w) world_scheme \<Rightarrow> ipc_event list" where
  "emitted w w' = drop (length (calls w)) (calls w')"

text \<open>
  The calls an action issues and the calls it awaits, in order. An awaited call has
  settled when the action goes on. For a call that is not awaited the action does not
  wait: when its promise settles is not fixed by the action, and nothing below says
  whether it has settled at any later point.
\<close>

definition issued :: "ipc_event list \<Rightarrow> ipc list" where
  "issued tr = List.map_filter (\<lambda>e. case e of Call c \<Rightarrow> Some c | Await c \<Rightarrow> None) tr"

definition awaited :: "ipc_event list \<Rightarrow> ipc list" where
  "awaited tr = List.map_filter (\<lambda>e. case e of Call c \<Rightarrow> None | Await c \<Rightarrow> Some c) tr"

text \<open>
  The largest number of calls issued one after the other with no \<^verbatim>\<open>await\<close> between
  them, that is, within one uninterrupted run of the action.
\<close>

fun burst_from :: "nat \<Rightarrow> ipc_event list \<Rightarrow> nat" where
  "burst_from n [] = n"
| "burst_from n (Call c # tr) = burst_from (Suc n) tr"
| "burst_from n (Await c # tr) = max n (burst_from 0 tr)"

definition burst :: "ipc_event list \<Rightarrow> nat" where
  "burst tr = burst_from 0 tr"

section \<open>Sample bridges, sessions and stores\<close>

text \<open>
  Concrete inputs after the fixtures of the store's test suite: a bridge whose calls
  all resolve, a bridge whose calls all reject, a session in the error state with an
  error on its tab, a busy session, and a store holding both.
\<close>

definition bridge_ok :: bridge where
  "bridge_ok =
     \<lparr>detect = (\<lambda>r. Resolved []), kill = (\<lambda>n. Resolved True),
      interrupt = (\<lambda>n. Resolved True), clearError = (\<lambda>s. Resolved ())\<rparr>"

definition bridge_failing :: bridge where
  "bridge_failing =
     \<lparr>detect = (\<lambda>r. Rejected (Failure ''Detection failed'')),
      kill = (\<lambda>n. Rejected (Failure ''Process not found'')),
      interrupt = (\<lambda>n. Rejected (Failure ''Process not found'')),
      clearError = (\<lambda>s. Rejected (Failure ''No such session''))\<rparr>"

definition crashed_session :: "unit Session" where
  "crashed_session =
     \<lparr>session_id = ''session-1'', state = ''error'',
      agentError = Some \<lparr>error_type = ''agent_crashed'', message = ''crash''\<rparr>,
      agentErrorTabId = Some ''tab-1'', agentErrorPaused = Some True, inputMode = ''ai'',
      aiTabs = [\<lparr>tab_id = ''tab-1'',
                 tab_agentError = Some \<lparr>error_type = ''agent_crashed'', message = ''crash''\<rparr>\<rparr>]\<rparr>"

definition busy_session :: "unit Session" where
  "busy_session =
     \<lparr>session_id = ''session-2'', state = ''busy'', agentError = None,
      agentErrorTabId = None, agentErrorPaused = None, inputMode = ''ai'',
      aiTabs = [\<lparr>tab_id = ''default-tab'', tab_agentError = None\<rparr>]\<rparr>"

definition store0 :: "(unit, unit) world" where
  "store0 =
     \<lparr>sessions = [crashed_session, busy_session], activeSessionId = '''',
      availableAgents = [], agentsDetected = False, calls = [], console = []\<rparr>"

text \<open>A \<open>createTab\<close> that appends a fresh tab and keeps every other field.\<close>

definition appendTab :: "unit Session \<Rightarrow> TabOptions \<Rightarrow> unit Session option" where
  "appendTab s opts =
     Some (s\<lparr>aiTabs := aiTabs s @ [\<lparr>tab_id = ''new-tab'', tab_agentError = None\<rparr>]\<rparr>)"


section \<open>What each action does to the sessions, the calls and its result\<close>

lemma sessions_updateSession:
  "sessions (updateSession sessionId f w) =
     map (\<lambda>s. if session_id s = sessionId then f s else s) (sessions w)"
  by (simp add: updateSession_def setSessions_def)

lemma calls_updateSession: "calls (updateSession sessionId f w) = calls w"
  by (simp add: updateSession_def setSessions_def)

lemma sessions_clearAgentError:
  "sessions (clearAgentError br sessionId tabId w) =
     map (\<lambda>s. if session_id s = sessionId then clearAgentError_updater tabId s else s) (sessions w)"
  by (simp add: clearAgentError_def Let_def sessions_updateSession split: outcome.split)

lemma calls_clearAgentError:
  "calls (clearAgentError br sessionId tabId w) = calls w @ [Call (ClearError sessionId)]"
  by (simp add: clearAgentError_def Let_def calls_updateSession split: outcome.split)


lemma getSession_None:
  "getSession sessionId w = None \<longleftrightarrow> (\<forall>s \<in> set (sessions w). session_id s \<noteq> sessionId)"
  by (auto simp add: getSession_def find_None_iff)

lemma calls_setActiveSessionId: "calls (setActiveSessionId sessionId w) = calls w"
  by (simp add: setActiveSessionId_def)


lemma calls_killAgent:
  "calls (snd (killAgent br sessionId suffix w)) =
     calls w @ [Call (Kill (kill_target sessionId suffix)), Await (Kill (kill_target sessionId suffix))]"
  by (simp add: killAgent_def Let_def await_def split: outcome.split)

lemma calls_interruptAgent:
  "calls (snd (interruptAgent br sessionId w)) =
     calls w @ [Call (Interrupt sessionId), Await (Interrupt sessionId)]"
  by (simp add: interruptAgent_def await_def split: outcome.split)

lemma calls_refreshAgents:
  "calls (snd (refreshAgents br r w)) = calls w @ [Call (Detect r), Await (Detect r)]"
  by (simp add: refreshAgents_def await_def split: outcome.split)

lemma calls_restartAgentAfterError:
  "calls (snd (restartAgentAfterError br sessionId w)) =
     (case getSession sessionId w of
        None \<Rightarrow> calls w
      | Some s \<Rightarrow> calls w @ [Call (ClearError sessionId), Call (Kill (sessionId @ ''-ai'')),
                              Await (Kill (sessionId @ ''-ai''))])"
  by (simp add: restartAgentAfterError_def Let_def await_def calls_clearAgentError
      split: outcome.split option.split)

lemma calls_startNewSessionAfterError:
  "calls (startNewSessionAfterError br ct sessionId opts w) =
     (case getSession sessionId w of
        None \<Rightarrow> calls w
      | Some s \<Rightarrow> calls w @ [Call (ClearError sessionId)])"
  by (simp add: startNewSessionAfterError_def Let_def calls_updateSession calls_clearAgentError
      split: option.split)

lemma calls_authenticateAfterError:
  "calls (authenticateAfterError br sessionId w) =
     (case getSession sessionId w of
        None \<Rightarrow> calls w
      | Some s \<Rightarrow> calls w @ [Call (ClearError sessionId)])"
  by (simp add: authenticateAfterError_def Let_def calls_updateSession calls_clearAgentError
      calls_setActiveSessionId split: option.split)

lemma sessions_killAgent: "sessions (snd (killAgent br sessionId suffix w)) = sessions w"
  by (simp add: killAgent_def Let_def await_def split: outcome.split)

lemma sessions_interruptAgent: "sessions (snd (interruptAgent br sessionId w)) = sessions w"
  by (simp add: interruptAgent_def await_def split: outcome.split)


lemma fst_refreshAgents:
  "fst (refreshAgents br r w) =
     (case detect br r of Resolved agents \<Rightarrow> Inr Void | Rejected e \<Rightarrow> Inl e)"
  by (simp add: refreshAgents_def await_def split: outcome.split)

lemma fst_killAgent: "fst (killAgent br sessionId suffix w) = Inr Void"
  by (simp add: killAgent_def await_def Let_def split: outcome.split)

lemma fst_interruptAgent: "fst (interruptAgent br sessionId w) = Inr Void"
  by (simp add: interruptAgent_def await_def split: outcome.split)

lemma fst_restartAgentAfterError: "fst (restartAgentAfterError br sessionId w) = Inr Void"
  by (simp add: restartAgentAfterError_def await_def Let_def split: outcome.split option.split)

subsection \<open>The ids and the number of the sessions\<close>









subsection \<open>The events of each action\<close>

lemma emitted_run:
  "emitted w (snd (run br ct a w)) =
     (case a of
        RefreshAgents r \<Rightarrow> [Call (Detect r), Await (Detect r)]
      | GetAgentConfig agentId \<Rightarrow> []
      | ClearAgentError sessionId tabId \<Rightarrow> [Call (ClearError sessionId)]
      | StartNewSessionAfterError sessionId options \<Rightarrow>
          (case getSession sessionId w of None \<Rightarrow> [] | Some s \<Rightarrow> [Call (ClearError sessionId)])
      | RetryAfterError sessionId \<Rightarrow> [Call (ClearError sessionId)]
      | RestartAgentAfterError sessionId \<Rightarrow>
          (case getSession sessionId w of
             None \<Rightarrow> []
           | Some s \<Rightarrow> [Call (ClearError sessionId), Call (Kill (sessionId @ ''-ai'')),
                         Await (Kill (sessionId @ ''-ai''))])
      | AuthenticateAfterError sessionId \<Rightarrow>
          (case getSession sessionId w of None \<Rightarrow> [] | Some s \<Rightarrow> [Call (ClearError sessionId)])
      | KillAgent sessionId suffix \<Rightarrow>
          [Call (Kill (kill_target sessionId suffix)), Await (Kill (kill_target sessionId suffix))]
      | InterruptAgent sessionId \<Rightarrow> [Call (Interrupt sessionId), Await (Interrupt sessionId)])"
  by (cases a)
     (simp_all add: emitted_def calls_refreshAgents calls_clearAgentError
        calls_startNewSessionAfterError retryAfterError_def calls_restartAgentAfterError
        calls_authenticateAfterError calls_killAgent calls_interruptAgent split: option.split)

section \<open>The claims\<close>

text \<open>
  C1. For every session of the collection whose id is the one given to
  \<open>clearAgentError\<close>, whatever error descriptor, tab reference and paused flag it carried
  and whatever tab id is passed, the session at the same position afterwards has the
  lifecycle state \<open>idle\<close>, no error descriptor, no offending-tab reference and the paused
  flag \<open>false\<close>.
\<close>

theorem clearAgentError_resets:
  assumes "i < length (sessions w)" and "session_id (sessions w ! i) = sessionId"
  shows "length (sessions (clearAgentError br sessionId tabId w)) = length (sessions w) \<and>
         session_id (sessions (clearAgentError br sessionId tabId w) ! i) = sessionId \<and>
         state (sessions (clearAgentError br sessionId tabId w) ! i) = ''idle'' \<and>
         agentError (sessions (clearAgentError br sessionId tabId w) ! i) = None \<and>
         agentErrorTabId (sessions (clearAgentError br sessionId tabId w) ! i) = None \<and>
         agentErrorPaused (sessions (clearAgentError br sessionId tabId w) ! i) = Some False"
  using assms by (simp add: sessions_clearAgentError clearAgentError_updater_def Let_def)

text \<open>
  C1 at the crashed session of the sample store, with a bridge that rejects the
  acknowledgment: the session carried an error before and is reset.
\<close>

theorem clearAgentError_resets_witness:
  "state (sessions (clearAgentError bridge_failing ''session-1'' None store0) ! 0) = ''idle'' \<and>
   agentError (sessions (clearAgentError bridge_failing ''session-1'' None store0) ! 0) = None \<and>
   agentErrorTabId (sessions (clearAgentError bridge_failing ''session-1'' None store0) ! 0) = None \<and>
   agentErrorPaused (sessions (clearAgentError bridge_failing ''session-1'' None store0) ! 0) = Some False \<and>
   agentError (sessions store0 ! 0) = Some \<lparr>error_type = ''agent_crashed'', message = ''crash''\<rparr>"
  using clearAgentError_resets [of 0 store0 "''session-1''" bridge_failing None]
  by (simp add: store0_def crashed_session_def)

text \<open>
  C2, as amended. When the given id matches no session: \<open>startNewSessionAfterError\<close>,
  \<open>restartAgentAfterError\<close> and \<open>authenticateAfterError\<close> leave the whole state as it
  was and issue no call; \<open>clearAgentError\<close> and \<open>retryAfterError\<close> leave the collection
  as it was but still issue the error-acknowledgment call; \<open>killAgent\<close> and
  \<open>interruptAgent\<close> never look at the collection, leave it as it was and issue their
  kill or interrupt call.
\<close>

theorem absent_session:
  assumes "getSession sessionId w = None"
  shows "startNewSessionAfterError br ct sessionId options w = w \<and>
         restartAgentAfterError br sessionId w = (Inr Void, w) \<and>
         authenticateAfterError br sessionId w = w \<and>
         sessions (clearAgentError br sessionId tabId w) = sessions w \<and>
         calls (clearAgentError br sessionId tabId w) = calls w @ [Call (ClearError sessionId)] \<and>
         sessions (retryAfterError br sessionId w) = sessions w \<and>
         calls (retryAfterError br sessionId w) = calls w @ [Call (ClearError sessionId)] \<and>
         sessions (snd (killAgent br sessionId suffix w)) = sessions w \<and>
         calls (snd (killAgent br sessionId suffix w)) =
           calls w @ [Call (Kill (kill_target sessionId suffix)),
                      Await (Kill (kill_target sessionId suffix))] \<and>
         sessions (snd (interruptAgent br sessionId w)) = sessions w \<and>
         calls (snd (interruptAgent br sessionId w)) =
           calls w @ [Call (Interrupt sessionId), Await (Interrupt sessionId)]"
proof -
  have same: "sessions (clearAgentError br sessionId t w) = sessions w" for t
    using assms by (simp add: sessions_clearAgentError getSession_None map_idI)
  have "startNewSessionAfterError br ct sessionId options w = w"
    using assms by (simp add: startNewSessionAfterError_def)
  moreover have "restartAgentAfterError br sessionId w = (Inr Void, w)"
    using assms by (simp add: restartAgentAfterError_def)
  moreover have "authenticateAfterError br sessionId w = w"
    using assms by (simp add: authenticateAfterError_def)
  ultimately show ?thesis
    by (simp add: same retryAfterError_def calls_clearAgentError sessions_killAgent
          calls_killAgent sessions_interruptAgent calls_interruptAgent)
qed

text \<open>C2, as amended, at an id that the sample store does not hold.\<close>

theorem absent_session_witness:
  "startNewSessionAfterError bridge_failing appendTab ''nonexistent'' None store0 = store0 \<and>
   restartAgentAfterError bridge_failing ''nonexistent'' store0 = (Inr Void, store0) \<and>
   authenticateAfterError bridge_failing ''nonexistent'' store0 = store0 \<and>
   sessions (clearAgentError bridge_failing ''nonexistent'' None store0) = sessions store0"
proof -
  have absent: "getSession ''nonexistent'' store0 = None"
    by (simp add: getSession_def store0_def crashed_session_def busy_session_def)
  show ?thesis
    using absent_session [OF absent, of bridge_failing appendTab None None None] by simp
qed

text \<open>
  C2 as stated fails: on a store that holds no session with the id \<open>nonexistent\<close> and
  has issued no call yet, \<open>killAgent\<close>, \<open>interruptAgent\<close>, \<open>clearAgentError\<close> and
  \<open>retryAfterError\<close> each issue an external call.
\<close>

theorem counterexample_absent_session_still_calls:
  "getSession ''nonexistent'' store0 = None \<and>
   calls store0 = [] \<and>
   calls (snd (run bridge_ok appendTab (KillAgent ''nonexistent'' None) store0)) =
     [Call (Kill ''nonexistent-ai''), Await (Kill ''nonexistent-ai'')] \<and>
   calls (snd (run bridge_ok appendTab (InterruptAgent ''nonexistent'') store0)) =
     [Call (Interrupt ''nonexistent''), Await (Interrupt ''nonexistent'')] \<and>
   calls (snd (run bridge_ok appendTab (ClearAgentError ''nonexistent'' None) store0)) =
     [Call (ClearError ''nonexistent'')] \<and>
   calls (snd (run bridge_ok appendTab (RetryAfterError ''nonexistent'') store0)) =
     [Call (ClearError ''nonexistent'')]"
  by (simp add: getSession_def store0_def crashed_session_def busy_session_def
        calls_killAgent calls_interruptAgent calls_clearAgentError retryAfterError_def
        kill_target_def)

text \<open>
  C3, as amended. An action hands a failure to its caller exactly when it is
  \<open>refreshAgents\<close> and the detect call rejected with that failure; the agent cache is
  then left as it was. A failure of kill, interrupt or error-acknowledgment never
  surfaces; a rejected error-acknowledgment is written to the console by the handler
  of \<open>clearAgentError\<close>.
\<close>

theorem failure_surfaces_only_from_detect:
  "(fst (run br ct a w) = Inl e \<longleftrightarrow> (\<exists>r. a = RefreshAgents r \<and> detect br r = Rejected e)) \<and>
   (detect br r = Rejected e \<longrightarrow>
      availableAgents (snd (refreshAgents br r w)) = availableAgents w \<and>
      agentsDetected (snd (refreshAgents br r w)) = agentsDetected w) \<and>
   (clearError br sessionId = Rejected e \<longrightarrow>
      console (clearAgentError br sessionId tabId w) =
        console w @ [(''Failed to clear agent error:'', e)])"
proof -
  have "fst (run br ct a w) = Inl e \<longleftrightarrow> (\<exists>r. a = RefreshAgents r \<and> detect br r = Rejected e)"
    by (cases a)
       (auto simp add: fst_refreshAgents fst_killAgent fst_interruptAgent
          fst_restartAgentAfterError split: outcome.splits)
  moreover have "detect br r = Rejected e \<longrightarrow>
      availableAgents (snd (refreshAgents br r w)) = availableAgents w \<and>
      agentsDetected (snd (refreshAgents br r w)) = agentsDetected w"
    by (simp add: refreshAgents_def await_def)
  moreover have "clearError br sessionId = Rejected e \<longrightarrow>
      console (clearAgentError br sessionId tabId w) =
        console w @ [(''Failed to clear agent error:'', e)]"
    by (simp add: clearAgentError_def Let_def updateSession_def setSessions_def)
  ultimately show ?thesis by blast
qed

text \<open>
  C3, as amended, with the bridge whose calls all reject: the rejected acknowledgment
  does not reach the caller of \<open>clearAgentError\<close> and is written to the console, and
  the rejected detect leaves the cache empty and undetected.
\<close>

theorem failure_surfaces_only_from_detect_witness:
  "fst (run bridge_failing appendTab (ClearAgentError ''session-1'' None) store0) \<noteq>
     Inl (Failure ''No such session'') \<and>
   console (clearAgentError bridge_failing ''session-1'' None store0) =
     [(''Failed to clear agent error:'', Failure ''No such session'')] \<and>
   availableAgents (snd (refreshAgents bridge_failing None store0)) = [] \<and>
   agentsDetected (snd (refreshAgents bridge_failing None store0)) = False"
proof -
  note inst = failure_surfaces_only_from_detect
    [of bridge_failing appendTab _ store0 _ None "''session-1''" None]
  have d: "detect bridge_failing None = Rejected (Failure ''Detection failed'')"
    by (simp add: bridge_failing_def)
  have c: "clearError bridge_failing ''session-1'' = Rejected (Failure ''No such session'')"
    by (simp add: bridge_failing_def)
  have "fst (run bridge_failing appendTab (ClearAgentError ''session-1'' None) store0) \<noteq>
     Inl (Failure ''No such session'')"
    using inst [of "ClearAgentError ''session-1'' None" "Failure ''No such session''"] by simp
  moreover have "console (clearAgentError bridge_failing ''session-1'' None store0) =
     console store0 @ [(''Failed to clear agent error:'', Failure ''No such session'')]"
    using inst [of "ClearAgentError ''session-1'' None" "Failure ''No such session''"] c by simp
  moreover have
    "availableAgents (snd (refreshAgents bridge_failing None store0)) = availableAgents store0 \<and>
     agentsDetected (snd (refreshAgents bridge_failing None store0)) = agentsDetected store0"
    using inst [of "RefreshAgents None" "Failure ''Detection failed''"] d by simp
  ultimately show ?thesis by (simp add: store0_def)
qed

text \<open>
  C3 as stated fails: \<open>refreshAgents\<close> awaits the detect call outside any handler, so
  with a bridge whose detect call rejects its caller gets the failure.
\<close>

theorem counterexample_detect_failure_surfaces:
  "fst (run bridge_failing appendTab (RefreshAgents None) store0) =
     Inl (Failure ''Detection failed'')"
  by (simp add: fst_refreshAgents bridge_failing_def)

text \<open>
  C4, as amended. \<open>killAgent\<close> with no suffix issues a kill call for the session id
  followed by \<open>-ai\<close>; with a suffix that is not the empty string it issues a kill call
  for the session id, a hyphen and the suffix.
\<close>

theorem killAgent_target:
  "calls (snd (killAgent br sessionId None w)) =
     calls w @ [Call (Kill (sessionId @ ''-ai'')), Await (Kill (sessionId @ ''-ai''))] \<and>
   (suffix \<noteq> '''' \<longrightarrow>
      calls (snd (killAgent br sessionId (Some suffix) w)) =
        calls w @ [Call (Kill (sessionId @ ''-'' @ suffix)),
                   Await (Kill (sessionId @ ''-'' @ suffix))])"
  by (simp add: calls_killAgent kill_target_def truthy_def)

text \<open>C4, as amended, at the two cases of the test suite: no suffix, and \<open>terminal\<close>.\<close>

theorem killAgent_target_witness:
  "calls (snd (killAgent bridge_ok ''session-1'' None store0)) =
     [Call (Kill ''session-1-ai''), Await (Kill ''session-1-ai'')] \<and>
   calls (snd (killAgent bridge_ok ''session-1'' (Some ''terminal'') store0)) =
     [Call (Kill ''session-1-terminal''), Await (Kill ''session-1-terminal'')]"
  using killAgent_target [of bridge_ok "''session-1''" store0 "''terminal''"]
  by (simp add: store0_def)

text \<open>
  C4 as stated fails at the empty suffix: the kill call names \<open>session-2-ai\<close>, and no
  call names the session id followed by a hyphen and the given suffix.
\<close>

theorem counterexample_empty_suffix_target:
  "calls (snd (killAgent bridge_failing ''session-2'' (Some '''') store0)) =
     [Call (Kill ''session-2-ai''), Await (Kill ''session-2-ai'')] \<and>
   Call (Kill (''session-2'' @ ''-'' @ '''')) \<notin>
     set (calls (snd (killAgent bridge_failing ''session-2'' (Some '''') store0)))"
  by (simp add: calls_killAgent kill_target_def truthy_def store0_def)

text \<open>
  C5. \<open>clearAgentError\<close> keeps the number of sessions, and every session whose id
  differs from the given one is afterwards, at the same position, equal to what it was
  (all its fields, those the store never names included).
\<close>

theorem clearAgentError_frame:
  assumes "i < length (sessions w)" and "session_id (sessions w ! i) \<noteq> sessionId"
  shows "length (sessions (clearAgentError br sessionId tabId w)) = length (sessions w) \<and>
         sessions (clearAgentError br sessionId tabId w) ! i = sessions w ! i"
  using assms by (simp add: sessions_clearAgentError)

text \<open>
  C5 at the sample store: clearing the error of \<open>session-1\<close>, even with the id of a tab
  of the other session, leaves \<open>session-2\<close> as it was, while \<open>session-1\<close> changes.
\<close>

theorem clearAgentError_frame_witness:
  "sessions (clearAgentError bridge_ok ''session-1'' (Some ''default-tab'') store0) ! 1 = busy_session \<and>
   sessions (clearAgentError bridge_ok ''session-1'' (Some ''default-tab'') store0) ! 0 \<noteq> crashed_session"
proof -
  have other: "session_id (sessions store0 ! 1) \<noteq> ''session-1''"
    by (simp add: store0_def busy_session_def)
  have "sessions (clearAgentError bridge_ok ''session-1'' (Some ''default-tab'') store0) ! 1 =
        sessions store0 ! 1"
    using clearAgentError_frame [of 1 store0 "''session-1''" bridge_ok "Some ''default-tab''"] other
    by (simp add: store0_def)
  then have "sessions (clearAgentError bridge_ok ''session-1'' (Some ''default-tab'') store0) ! 1 =
        busy_session"
    by (simp add: store0_def)
  moreover have
    "sessions (clearAgentError bridge_ok ''session-1'' (Some ''default-tab'') store0) ! 0 \<noteq>
     crashed_session"
    by (simp add: store0_def crashed_session_def sessions_clearAgentError
          clearAgentError_updater_def Let_def truthy_def)
  ultimately show ?thesis by simp
qed

text \<open>
  C6. Whatever the bridge answers, and so also when the kill or the interrupt call
  rejects, \<open>killAgent\<close>, \<open>interruptAgent\<close> and \<open>restartAgentAfterError\<close> complete
  normally: their caller gets no failure.
\<close>

theorem kill_interrupt_never_fail:
  "fst (killAgent br sessionId suffix w) = Inr Void \<and>
   fst (interruptAgent br sessionId w) = Inr Void \<and>
   fst (restartAgentAfterError br sessionId w) = Inr Void"
  by (simp add: fst_killAgent fst_interruptAgent fst_restartAgentAfterError)

text \<open>C6 with the bridge whose kill and interrupt calls reject.\<close>

theorem kill_interrupt_never_fail_witness:
  "kill bridge_failing ''session-1-ai'' = Rejected (Failure ''Process not found'') \<and>
   interrupt bridge_failing ''session-1'' = Rejected (Failure ''Process not found'') \<and>
   fst (killAgent bridge_failing ''session-1'' None store0) = Inr Void \<and>
   fst (interruptAgent bridge_failing ''session-1'' store0) = Inr Void \<and>
   fst (restartAgentAfterError bridge_failing ''session-1'' store0) = Inr Void"
  using kill_interrupt_never_fail [of bridge_failing "''session-1''" None store0]
  by (simp add: bridge_failing_def)

text \<open>
  C7, as amended. Every action issues at most two external calls, and every action
  other than \<open>restartAgentAfterError\<close> at most one. Every detect, kill and interrupt
  call an action issues is awaited by it before it returns. An error-acknowledgment
  call is never awaited: \<open>clearAgentError\<close> issues it and returns, and the actions that
  go through \<open>clearAgentError\<close> do not await it either. \<open>restartAgentAfterError\<close> on a
  session of the collection issues the error-acknowledgment call and then the kill
  call with no await between the two, and awaits the kill call only.
\<close>

theorem calls_issued_and_awaited:
  "length (issued (emitted w (snd (run br ct a w)))) \<le> 2 \<and>
   ((\<forall>sessionId. a \<noteq> RestartAgentAfterError sessionId) \<longrightarrow>
      length (issued (emitted w (snd (run br ct a w)))) \<le> 1) \<and>
   (\<forall>c \<in> set (issued (emitted w (snd (run br ct a w)))).
      (\<exists>sessionId. c = ClearError sessionId) \<or> c \<in> set (awaited (emitted w (snd (run br ct a w))))) \<and>
   (\<forall>sessionId. ClearError sessionId \<notin> set (awaited (emitted w (snd (run br ct a w))))) \<and>
   emitted w (snd (run br ct (ClearAgentError sessionId tabId) w)) = [Call (ClearError sessionId)] \<and>
   (getSession sessionId w \<noteq> None \<longrightarrow>
      emitted w (snd (run br ct (RestartAgentAfterError sessionId) w)) =
        [Call (ClearError sessionId), Call (Kill (sessionId @ ''-ai'')),
         Await (Kill (sessionId @ ''-ai''))] \<and>
      burst (emitted w (snd (run br ct (RestartAgentAfterError sessionId) w))) = 2)"
proof -
  have counts: "length (issued (emitted w (snd (run br ct a w)))) \<le> 2 \<and>
   ((\<forall>sessionId. a \<noteq> RestartAgentAfterError sessionId) \<longrightarrow>
      length (issued (emitted w (snd (run br ct a w)))) \<le> 1)"
    unfolding emitted_run
    by (cases a) (simp_all add: issued_def map_filter_simps split: option.split)
  have waits: "\<forall>c \<in> set (issued (emitted w (snd (run br ct a w)))).
      (\<exists>sessionId. c = ClearError sessionId) \<or> c \<in> set (awaited (emitted w (snd (run br ct a w))))"
    unfolding emitted_run
    by (cases a) (simp_all add: issued_def awaited_def map_filter_simps split: option.split)
  have never: "\<forall>sessionId. ClearError sessionId \<notin> set (awaited (emitted w (snd (run br ct a w))))"
    unfolding emitted_run
    by (cases a) (simp_all add: awaited_def map_filter_simps split: option.split)
  have clear: "emitted w (snd (run br ct (ClearAgentError sessionId tabId) w)) =
      [Call (ClearError sessionId)]"
    unfolding emitted_run by simp
  have restart: "getSession sessionId w \<noteq> None \<longrightarrow>
      emitted w (snd (run br ct (RestartAgentAfterError sessionId) w)) =
        [Call (ClearError sessionId), Call (Kill (sessionId @ ''-ai'')),
         Await (Kill (sessionId @ ''-ai''))] \<and>
      burst (emitted w (snd (run br ct (RestartAgentAfterError sessionId) w))) = 2"
    unfolding emitted_run by (auto simp add: burst_def)
  from counts waits never clear restart show ?thesis by blast
qed

text \<open>
  C7, as amended, at the sample store: \<open>killAgent\<close> issues one call and awaits it;
  \<open>authenticateAfterError\<close> issues the acknowledgment and awaits nothing;
  \<open>restartAgentAfterError\<close> issues two calls in a row.
\<close>

theorem calls_issued_and_awaited_witness:
  "length (issued (emitted store0
      (snd (run bridge_ok appendTab (KillAgent ''session-1'' None) store0)))) \<le> 1 \<and>
   ClearError ''session-1'' \<notin> set (awaited (emitted store0
      (snd (run bridge_ok appendTab (AuthenticateAfterError ''session-1'') store0)))) \<and>
   burst (emitted store0
      (snd (run bridge_ok appendTab (RestartAgentAfterError ''session-1'') store0))) = 2"
proof -
  have present: "getSession ''session-1'' store0 \<noteq> None"
    by (simp add: getSession_def store0_def crashed_session_def)
  have "length (issued (emitted store0
      (snd (run bridge_ok appendTab (KillAgent ''session-1'' None) store0)))) \<le> 1"
    using calls_issued_and_awaited
      [of store0 bridge_ok appendTab "KillAgent ''session-1'' None" "''session-1''" None]
    by simp
  moreover have "ClearError ''session-1'' \<notin> set (awaited (emitted store0
      (snd (run bridge_ok appendTab (AuthenticateAfterError ''session-1'') store0))))"
    using calls_issued_and_awaited
      [of store0 bridge_ok appendTab "AuthenticateAfterError ''session-1''" "''session-1''" None]
    by blast
  moreover have "burst (emitted store0
      (snd (run bridge_ok appendTab (RestartAgentAfterError ''session-1'') store0))) = 2"
    using calls_issued_and_awaited
      [of store0 bridge_ok appendTab "RestartAgentAfterError ''session-1''" "''session-1''" None]
      present
    by blast
  ultimately show ?thesis by simp
qed

text \<open>
  C7 as stated fails: \<open>clearAgentError\<close> issues the error-acknowledgment call and
  returns without awaiting it, and \<open>restartAgentAfterError\<close> on a session of the store
  issues two calls, the acknowledgment and the kill, one after the other with no await
  between them, and awaits the kill call only.
\<close>

theorem counterexample_unawaited_call:
  "emitted store0 (snd (run bridge_ok appendTab (ClearAgentError ''session-1'' None) store0)) =
     [Call (ClearError ''session-1'')] \<and>
   awaited (emitted store0
     (snd (run bridge_ok appendTab (ClearAgentError ''session-1'' None) store0))) = [] \<and>
   emitted store0 (snd (run bridge_ok appendTab (RestartAgentAfterError ''session-1'') store0)) =
     [Call (ClearError ''session-1''), Call (Kill ''session-1-ai''), Await (Kill ''session-1-ai'')] \<and>
   issued (emitted store0
     (snd (run bridge_ok appendTab (RestartAgentAfterError ''session-1'') store0))) =
     [ClearError ''session-1'', Kill ''session-1-ai''] \<and>
   awaited (emitted store0
     (snd (run bridge_ok appendTab (RestartAgentAfterError ''session-1'') store0))) =
     [Kill ''session-1-ai''] \<and>
   burst (emitted store0
     (snd (run bridge_ok appendTab (RestartAgentAfterError ''session-1'') store0))) = 2"
  unfolding emitted_run
  by (simp add: getSession_def store0_def crashed_session_def issued_def awaited_def
        burst_def map_filter_simps)




text \<open>
  C9. \<open>getRevealLabel\<close> is a function of the platform string alone: it returns
  \<open>Reveal in Explorer\<close> for \<open>win32\<close>, \<open>Reveal in File Manager\<close> for \<open>linux\<close> and
  \<open>Reveal in Finder\<close> for every other string, so always one of these three, and equal
  inputs give equal outputs.
\<close>

theorem getRevealLabel_cases:
  "(platform = ''win32'' \<longrightarrow> getRevealLabel platform = ''Reveal in Explorer'') \<and>
   (platform = ''linux'' \<longrightarrow> getRevealLabel platform = ''Reveal in File Manager'') \<and>
   (platform \<noteq> ''win32'' \<and> platform \<noteq> ''linux'' \<longrightarrow>
      getRevealLabel platform = ''Reveal in Finder'') \<and>
   getRevealLabel platform \<in>
     {''Reveal in Explorer'', ''Reveal in File Manager'', ''Reveal in Finder''} \<and>
   (platform = platform' \<longrightarrow> getRevealLabel platform = getRevealLabel platform')"
  by (simp add: getRevealLabel_def)

text \<open>
  C9 at \<open>win32\<close>, \<open>linux\<close>, \<open>darwin\<close> and at \<open>Linux\<close>, which differs from \<open>linux\<close>
  in case and so gets the default label.
\<close>

theorem getRevealLabel_cases_witness:
  "getRevealLabel ''win32'' = ''Reveal in Explorer'' \<and>
   getRevealLabel ''linux'' = ''Reveal in File Manager'' \<and>
   getRevealLabel ''darwin'' = ''Reveal in Finder'' \<and>
   getRevealLabel ''Linux'' = ''Reveal in Finder''"
  using getRevealLabel_cases [of "''win32''" "''win32''"]
    getRevealLabel_cases [of "''linux''" "''linux''"]
    getRevealLabel_cases [of "''darwin''" "''darwin''"]
    getRevealLabel_cases [of "''Linux''" "''Linux''"]
  by simp

text \<open>
  C10. \<open>killAgent\<close> with the empty string as suffix issues a kill call for the session
  id followed by \<open>-ai\<close>, does exactly what it does with no suffix, and its target is not
  the session id followed by a hyphen alone.
\<close>

theorem killAgent_empty_suffix:
  "calls (snd (killAgent br sessionId (Some '''') w)) =
     calls w @ [Call (Kill (sessionId @ ''-ai'')), Await (Kill (sessionId @ ''-ai''))] \<and>
   killAgent br sessionId (Some '''') w = killAgent br sessionId None w \<and>
   sessionId @ ''-ai'' \<noteq> sessionId @ ''-''"
proof -
  have target: "kill_target sessionId (Some '''') = sessionId @ ''-ai''"
    by (simp add: kill_target_def truthy_def)
  have "kill_target sessionId None = sessionId @ ''-ai''"
    by (simp add: kill_target_def)
  with target have "killAgent br sessionId (Some '''') w = killAgent br sessionId None w"
    by (simp add: killAgent_def)
  moreover have "calls (snd (killAgent br sessionId (Some '''') w)) =
     calls w @ [Call (Kill (sessionId @ ''-ai'')), Await (Kill (sessionId @ ''-ai''))]"
    by (simp add: calls_killAgent target)
  ultimately show ?thesis by simp
qed

text \<open>C10 at \<open>session-1\<close> of the sample store.\<close>

theorem killAgent_empty_suffix_witness:
  "calls (snd (killAgent bridge_ok ''session-1'' (Some '''') store0)) =
     [Call (Kill ''session-1-ai''), Await (Kill ''session-1-ai'')]"
proof -
  have "calls (snd (killAgent bridge_ok ''session-1'' (Some '''') store0)) =
     calls store0 @ [Call (Kill (''session-1'' @ ''-ai'')), Await (Kill (''session-1'' @ ''-ai''))]"
    using killAgent_empty_suffix [of bridge_ok "''session-1''" store0] by (rule conjunct1)
  then show ?thesis by (simp add: store0_def)
qed

end
